theory Spec2Isabelle
  imports Complex_Main "HOL-Library.Sublist" "HOL-Library.AList"
begin

section \<open>Python values used by thinker\_goat.py\<close>

subsection \<open>Floats\<close>

text \<open>
  A Python float is a finite number, one of the two infinities, or NaN. Finite arithmetic
  is exact here (IEEE rounding and overflow to infinity are not modelled); every theorem
  about a clamped value below is proved for an arbitrary float fed to the clamp, so it
  does not depend on how a sum or product was rounded.
\<close>

datatype pyfloat = Fin real | PInf | NInf | NaN

text \<open>Python's \<open>a < b\<close> on floats: every comparison with NaN is false.\<close>

fun flt :: "pyfloat \<Rightarrow> pyfloat \<Rightarrow> bool" where
  "flt NaN b = False"
| "flt a NaN = False"
| "flt (Fin x) (Fin y) = (x < y)"
| "flt (Fin x) PInf = True"
| "flt (Fin x) NInf = False"
| "flt PInf b = False"
| "flt NInf NInf = False"
| "flt NInf b = True"

definition fgt :: "pyfloat \<Rightarrow> pyfloat \<Rightarrow> bool" where
  "fgt a b = flt b a"

text \<open>Python's \<open>a == b\<close> on floats: NaN is not equal to itself.\<close>

definition feq :: "pyfloat \<Rightarrow> pyfloat \<Rightarrow> bool" where
  "feq a b = (a \<noteq> NaN \<and> a = b)"

definition fle :: "pyfloat \<Rightarrow> pyfloat \<Rightarrow> bool" where
  "fle a b = (flt a b \<or> feq a b)"

definition fge :: "pyfloat \<Rightarrow> pyfloat \<Rightarrow> bool" where
  "fge a b = fle b a"

text \<open>
  The builtins \<open>max(a, b)\<close> and \<open>min(a, b)\<close> keep their first argument and replace it
  by the second only when the second is strictly greater (smaller).
\<close>

definition py_max :: "pyfloat \<Rightarrow> pyfloat \<Rightarrow> pyfloat" where
  "py_max a b = (if fgt b a then b else a)"

definition py_min :: "pyfloat \<Rightarrow> pyfloat \<Rightarrow> pyfloat" where
  "py_min a b = (if flt b a then b else a)"

fun fadd :: "pyfloat \<Rightarrow> pyfloat \<Rightarrow> pyfloat" where
  "fadd NaN b = NaN"
| "fadd a NaN = NaN"
| "fadd (Fin x) (Fin y) = Fin (x + y)"
| "fadd (Fin x) b = b"
| "fadd a (Fin y) = a"
| "fadd PInf PInf = PInf"
| "fadd NInf NInf = NInf"
| "fadd PInf NInf = NaN"
| "fadd NInf PInf = NaN"

text \<open>The sign of a float (0 for zero), used by the product with an infinity.\<close>

fun fsgn :: "pyfloat \<Rightarrow> int" where
  "fsgn (Fin x) = (if x < 0 then - 1 else if x = 0 then 0 else 1)"
| "fsgn PInf = 1"
| "fsgn NInf = - 1"
| "fsgn NaN = 0"

fun fmul :: "pyfloat \<Rightarrow> pyfloat \<Rightarrow> pyfloat" where
  "fmul NaN b = NaN"
| "fmul a NaN = NaN"
| "fmul (Fin x) (Fin y) = Fin (x * y)"
| "fmul a b =
     (if fsgn a * fsgn b = 0 then NaN else if fsgn a * fsgn b = 1 then PInf else NInf)"

text \<open>
  The clamp of the specification: \<open>lo\<close> below the interval, \<open>hi\<close> above it, the value
  itself inside. It is written from the specification's words and compared with the
  code's \<open>max(lo, min(hi, x))\<close> below.
\<close>

definition clamp :: "pyfloat \<Rightarrow> pyfloat \<Rightarrow> pyfloat \<Rightarrow> pyfloat" where
  "clamp x lo hi = (if flt x lo then lo else if flt hi x then hi else x)"

definition in_range :: "real \<Rightarrow> real \<Rightarrow> pyfloat \<Rightarrow> bool" where
  "in_range lo hi v = (case v of Fin x \<Rightarrow> lo \<le> x \<and> x \<le> hi | _ \<Rightarrow> False)"

subsection \<open>Strings\<close>

text \<open>
  A Python string is a list of characters; a \<open>char\<close> stands for a code point below 256
  (strings with other code points are not represented). On these code points
  \<open>str.isspace\<close> and \<open>str.lower\<close> are as follows.
\<close>

definition is_space :: "char \<Rightarrow> bool" where
  "is_space c =
     (let n = (of_char c :: nat)
      in (9 \<le> n \<and> n \<le> 13) \<or> (28 \<le> n \<and> n \<le> 32) \<or> n = 133 \<or> n = 160)"

definition lower_char :: "char \<Rightarrow> char" where
  "lower_char c =
     (let n = (of_char c :: nat)
      in if (65 \<le> n \<and> n \<le> 90) \<or> (192 \<le> n \<and> n \<le> 222 \<and> n \<noteq> 215)
         then char_of (n + 32) else c)"

definition py_lower :: "string \<Rightarrow> string" where
  "py_lower s = map lower_char s"

definition py_strip :: "string \<Rightarrow> string" where
  "py_strip s = rev (dropWhile is_space (rev (dropWhile is_space s)))"

text \<open>\<open>s.split()\<close>: the maximal runs of characters that are not whitespace.\<close>

fun split_ws :: "string \<Rightarrow> string \<Rightarrow> string list" where
  "split_ws cur [] = (if cur = [] then [] else [cur])"
| "split_ws cur (c # cs) =
     (if is_space c then (if cur = [] then split_ws [] cs else cur # split_ws [] cs)
      else split_ws (cur @ [c]) cs)"

definition py_split :: "string \<Rightarrow> string list" where
  "py_split s = split_ws [] s"

text \<open>\<open>s.split(sep, 1)\<close> for a separator of one character: split at its first occurrence.\<close>

definition py_split1 :: "char \<Rightarrow> string \<Rightarrow> string list" where
  "py_split1 sep s =
     (if sep \<in> set s
      then [takeWhile (\<lambda>c. c \<noteq> sep) s, tl (dropWhile (\<lambda>c. c \<noteq> sep) s)]
      else [s])"

definition is_digit :: "char \<Rightarrow> bool" where
  "is_digit c = (48 \<le> (of_char c :: nat) \<and> (of_char c :: nat) \<le> 57)"

definition digit_val :: "char \<Rightarrow> nat" where
  "digit_val c = of_char c - 48"

text \<open>
  The digits of \<open>int()\<close> and \<open>float()\<close>: decimal digits, with single underscores allowed
  between two digits. \<open>digits_from n s\<close> reads \<open>s\<close> after a digit, \<open>n\<close> being the
  value and \<open>k\<close> the number of digits read so far.
\<close>

fun digits_from :: "nat \<times> nat \<Rightarrow> string \<Rightarrow> (nat \<times> nat) option" where
  "digits_from (n, k) [] = Some (n, k)"
| "digits_from (n, k) [c] = (if is_digit c then Some (10 * n + digit_val c, Suc k) else None)"
| "digits_from (n, k) (c # d # cs) =
     (if is_digit c then digits_from (10 * n + digit_val c, Suc k) (d # cs)
      else if c = CHR ''_'' \<and> is_digit d then digits_from (10 * n + digit_val d, Suc (Suc k)) cs
      else None)"

definition digitpart :: "string \<Rightarrow> (nat \<times> nat) option" where
  "digitpart s =
     (case s of [] \<Rightarrow> None
      | c # cs \<Rightarrow> if is_digit c then digits_from (digit_val c, 1) cs else None)"

definition split_sign :: "string \<Rightarrow> int \<times> string" where
  "split_sign s =
     (case s of [] \<Rightarrow> (1, [])
      | c # cs \<Rightarrow> if c = CHR ''+'' then (1, cs) else if c = CHR ''-'' then (- 1, cs) else (1, s))"

text \<open>
  \<open>int(s)\<close> for a string without surrounding whitespace (the dispatcher passes words of
  \<open>split()\<close>): \<open>None\<close> stands for the ValueError.
\<close>

definition py_int :: "string \<Rightarrow> int option" where
  "py_int s =
     (case digitpart (snd (split_sign s)) of
        None \<Rightarrow> None
      | Some (n, k) \<Rightarrow> Some (fst (split_sign s) * int n))"

text \<open>
  \<open>float(s)\<close> for a string without surrounding whitespace: an optional sign, then
  \<open>inf\<close>, \<open>infinity\<close>, \<open>nan\<close> (in any case) or a decimal numeral with an optional fraction
  and an optional exponent. The value is the exact decimal value (not rounded to a
  double); \<open>None\<close> stands for the ValueError.
\<close>

definition mantissa :: "string \<Rightarrow> real option" where
  "mantissa s =
     (let ip = takeWhile (\<lambda>c. c \<noteq> CHR ''.'') s;
          fp = (if CHR ''.'' \<in> set s then tl (dropWhile (\<lambda>c. c \<noteq> CHR ''.'') s) else [])
      in if ip = [] \<and> fp = [] then None
         else
           (case (if ip = [] then Some (0, 0) else digitpart ip,
                  if fp = [] then Some (0, 0) else digitpart fp) of
              (Some (n, k), Some (m, j)) \<Rightarrow> Some (real n + real m / 10 ^ j)
            | _ \<Rightarrow> None))"

definition exponent :: "string \<Rightarrow> int option" where
  "exponent s =
     (case digitpart (snd (split_sign s)) of
        None \<Rightarrow> None
      | Some (n, k) \<Rightarrow> Some (fst (split_sign s) * int n))"

definition py_float :: "string \<Rightarrow> pyfloat option" where
  "py_float s =
     (let sg = fst (split_sign s); r = py_lower (snd (split_sign s))
      in if r = ''inf'' \<or> r = ''infinity'' then Some (if sg = 1 then PInf else NInf)
         else if r = ''nan'' then Some NaN
         else
           (case (mantissa (takeWhile (\<lambda>c. c \<noteq> CHR ''e'') r),
                  if CHR ''e'' \<in> set r
                  then exponent (tl (dropWhile (\<lambda>c. c \<noteq> CHR ''e'') r)) else Some 0) of
              (Some m, Some e) \<Rightarrow>
                Some (Fin (real_of_int sg * m * (if e < 0 then 1 / 10 ^ nat (- e) else 10 ^ nat e)))
            | _ \<Rightarrow> None))"

section \<open>FeelingEngine\<close>

record feeling_engine =
  energy :: pyfloat
  calm :: pyfloat
  curiosity :: pyfloat
  frustration :: pyfloat

definition FeelingEngine_init :: feeling_engine where
  "FeelingEngine_init =
     \<lparr>energy = Fin 75, calm = Fin 0.3, curiosity = Fin 0.6, frustration = Fin 0.1\<rparr>"

definition react :: "feeling_engine \<Rightarrow> pyfloat \<Rightarrow> feeling_engine" where
  "react s reward =
     (let s1 = s\<lparr>energy := py_max (Fin 0) (py_min (Fin 100) (fadd (energy s) (fmul (Fin 2) reward)))\<rparr>
      in s1\<lparr>curiosity := py_max (Fin 0) (py_min (Fin 1) (fadd (curiosity s1) (fmul (Fin 0.1) reward)))\<rparr>)"

definition get_mood :: "feeling_engine \<Rightarrow> string" where
  "get_mood s =
     (if fgt (energy s) (Fin 80) then ''energetic''
      else if fgt (curiosity s) (Fin 0.7) then ''curious''
      else if flt (energy s) (Fin 30) then ''tired''
      else ''calm'')"

text \<open>The state after a sequence of \<open>react\<close> calls on a fresh engine.\<close>

definition react_all :: "pyfloat list \<Rightarrow> feeling_engine" where
  "react_all rewards = foldl react FeelingEngine_init rewards"

section \<open>VectorMemory\<close>

text \<open>
  A memory is a Python dictionary. Its type \<open>'m\<close> is left open; the two builtins
  \<open>search_similar\<close> applies to it are parameters: \<open>str_of\<close> is \<open>str(memory)\<close> and
  \<open>dict_eq\<close> is \<open>==\<close> on dictionaries. Ordering two dictionaries with \<open><\<close> raises
  TypeError.
\<close>

datatype py_exception = ValueError | TypeError | IndexError

record 'm vector_memory =
  memories :: "'m list"
  importance_scores :: "pyfloat list"
  dimensions :: int

definition VectorMemory_init :: "int \<Rightarrow> 'm vector_memory" where
  "VectorMemory_init d = \<lparr>memories = [], importance_scores = [], dimensions = d\<rparr>"

definition add_memory :: "'m vector_memory \<Rightarrow> 'm \<Rightarrow> pyfloat \<Rightarrow> 'm vector_memory" where
  "add_memory vm m importance =
     vm\<lparr>memories := memories vm @ [m], importance_scores := importance_scores vm @ [importance]\<rparr>"

text \<open>
  The body of the loop over the memories: the keyword count of one memory, boosted by its
  importance. \<open>query\<close> is the lowercased query.
\<close>

definition keyword_count :: "string \<Rightarrow> string \<Rightarrow> int" where
  "keyword_count query memory_text =
     foldl (\<lambda>score word. if sublist word memory_text then score + 1 else score) 0 (py_split query)"

definition memory_score :: "('m \<Rightarrow> string) \<Rightarrow> string \<Rightarrow> 'm \<Rightarrow> pyfloat \<Rightarrow> pyfloat" where
  "memory_score str_of query m importance =
     fmul (Fin (real_of_int (keyword_count query (py_lower (str_of m))))) (fadd (Fin 1) importance)"

text \<open>
  The loop \<open>for i, memory in enumerate(self.memories)\<close>, reading
  \<open>self.importance_scores[i]\<close>: IndexError when that list is the shorter one.
\<close>

fun scored_memories ::
  "('m \<Rightarrow> string) \<Rightarrow> string \<Rightarrow> 'm list \<Rightarrow> pyfloat list \<Rightarrow> py_exception + (pyfloat \<times> 'm) list" where
  "scored_memories str_of query [] imps = Inr []"
| "scored_memories str_of query (m # ms) [] = Inl IndexError"
| "scored_memories str_of query (m # ms) (imp # imps) =
     (case scored_memories str_of query ms imps of
        Inl e \<Rightarrow> Inl e
      | Inr r \<Rightarrow> Inr ((memory_score str_of query m imp, m) # r))"

text \<open>
  \<open>a < b\<close> on two tuples \<open>(score, memory)\<close>: the first components that differ (by \<open>==\<close>)
  decide; when the scores are equal the memories are compared, with \<open>==\<close> first and, if
  they differ, with \<open><\<close>, which dictionaries do not support.
\<close>

definition tuple_lt ::
  "('m \<Rightarrow> 'm \<Rightarrow> bool) \<Rightarrow> pyfloat \<times> 'm \<Rightarrow> pyfloat \<times> 'm \<Rightarrow> py_exception + bool" where
  "tuple_lt dict_eq a b =
     (if \<not> feq (fst a) (fst b) then Inr (flt (fst a) (fst b))
      else if \<not> dict_eq (snd a) (snd b) then Inl TypeError
      else Inr False)"

text \<open>
  \<open>list.sort(reverse=True)\<close> reverses the list, sorts it in ascending order, stably and
  with \<open><\<close> only, and reverses it again; an exception of a comparison ends it. The
  ascending sort is modelled by insertion from the left. Which pairs CPython's merge sort
  compares is not modelled: on keys without NaN every stable sort returns the same list,
  and has to compare two elements that end up adjacent.
\<close>

fun insort_py ::
  "('m \<Rightarrow> 'm \<Rightarrow> bool) \<Rightarrow> pyfloat \<times> 'm \<Rightarrow> (pyfloat \<times> 'm) list \<Rightarrow> py_exception + (pyfloat \<times> 'm) list" where
  "insort_py dict_eq x [] = Inr [x]"
| "insort_py dict_eq x (y # ys) =
     (case tuple_lt dict_eq x y of
        Inl e \<Rightarrow> Inl e
      | Inr lt \<Rightarrow>
          if lt then Inr (x # y # ys)
          else (case insort_py dict_eq x ys of Inl e \<Rightarrow> Inl e | Inr r \<Rightarrow> Inr (y # r)))"

fun sort_py ::
  "('m \<Rightarrow> 'm \<Rightarrow> bool) \<Rightarrow> (pyfloat \<times> 'm) list \<Rightarrow> (pyfloat \<times> 'm) list \<Rightarrow> py_exception + (pyfloat \<times> 'm) list" where
  "sort_py dict_eq acc [] = Inr acc"
| "sort_py dict_eq acc (x # xs) =
     (case insort_py dict_eq x acc of Inl e \<Rightarrow> Inl e | Inr acc' \<Rightarrow> sort_py dict_eq acc' xs)"

definition sort_reverse ::
  "('m \<Rightarrow> 'm \<Rightarrow> bool) \<Rightarrow> (pyfloat \<times> 'm) list \<Rightarrow> py_exception + (pyfloat \<times> 'm) list" where
  "sort_reverse dict_eq xs =
     (case sort_py dict_eq [] (rev xs) of Inl e \<Rightarrow> Inl e | Inr r \<Rightarrow> Inr (rev r))"

text \<open>The slice \<open>xs[:k]\<close>; a negative \<open>k\<close> counts from the end.\<close>

definition slice_to :: "'a list \<Rightarrow> int \<Rightarrow> 'a list" where
  "slice_to xs k = (if 0 \<le> k then take (nat k) xs else take (length xs - nat (- k)) xs)"

text \<open>
  \<open>ranked_memories\<close> is \<open>search_similar\<close> up to the last line, keeping the scores of the
  entries that the list comprehension returns; \<open>search_similar\<close> drops the scores.
\<close>

definition ranked_memories ::
  "('m \<Rightarrow> string) \<Rightarrow> ('m \<Rightarrow> 'm \<Rightarrow> bool) \<Rightarrow> 'm vector_memory \<Rightarrow> string \<Rightarrow> int \<Rightarrow>
     py_exception + (pyfloat \<times> 'm) list" where
  "ranked_memories str_of dict_eq vm query top_k =
     (case scored_memories str_of (py_lower query) (memories vm) (importance_scores vm) of
        Inl e \<Rightarrow> Inl e
      | Inr scored \<Rightarrow>
          (case sort_reverse dict_eq scored of
             Inl e \<Rightarrow> Inl e
           | Inr sorted_list \<Rightarrow> Inr (filter (\<lambda>e. fgt (fst e) (Fin 0)) (slice_to sorted_list top_k))))"

definition search_similar ::
  "('m \<Rightarrow> string) \<Rightarrow> ('m \<Rightarrow> 'm \<Rightarrow> bool) \<Rightarrow> 'm vector_memory \<Rightarrow> string \<Rightarrow> int \<Rightarrow>
     py_exception + 'm list" where
  "search_similar str_of dict_eq vm query top_k =
     (case ranked_memories str_of dict_eq vm query top_k of
        Inl e \<Rightarrow> Inl e
      | Inr r \<Rightarrow> Inr (map snd r))"

text \<open>
  The score as the specification words it: the number of lowercase query words that occur
  in the record's serialized text, times \<open>1 + importance\<close>. It differs from
  \<open>memory_score\<close> in that the text is taken as serialized, not lowercased.
\<close>

definition spec_score :: "('m \<Rightarrow> string) \<Rightarrow> string \<Rightarrow> 'm \<Rightarrow> pyfloat \<Rightarrow> pyfloat" where
  "spec_score str_of query m importance =
     fmul (Fin (real (length (filter (\<lambda>w. sublist w (str_of m)) (py_split (py_lower query))))))
       (fadd (Fin 1) importance)"

text \<open>
  A concrete kind of memory for examples: a dictionary with string keys and string values,
  as the list of its items in insertion order (keys distinct). \<open>dict_str\<close> is its
  \<open>str\<close>, for keys and values that \<open>repr\<close> prints between single quotes without escapes;
  \<open>dict_equal\<close> is its \<open>==\<close>, which ignores the order of the items.
\<close>

type_synonym str_dict = "(string \<times> string) list"

fun dict_items :: "str_dict \<Rightarrow> string" where
  "dict_items [] = []"
| "dict_items [(k, v)] = [CHR 0x27] @ k @ [CHR 0x27] @ '': '' @ [CHR 0x27] @ v @ [CHR 0x27]"
| "dict_items ((k, v) # kv # kvs) =
     [CHR 0x27] @ k @ [CHR 0x27] @ '': '' @ [CHR 0x27] @ v @ [CHR 0x27] @ '', '' @ dict_items (kv # kvs)"

definition dict_str :: "str_dict \<Rightarrow> string" where
  "dict_str d = ''{'' @ dict_items d @ ''}''"

definition dict_equal :: "str_dict \<Rightarrow> str_dict \<Rightarrow> bool" where
  "dict_equal d1 d2 = (set d1 = set d2)"

text \<open>Example memories and stores.\<close>

definition conversation_memory :: str_dict where
  "conversation_memory = [(''type'', ''conversation''), (''user_message'', ''Hello there'')]"

definition puzzle_memory :: str_dict where
  "puzzle_memory = [(''type'', ''logic_puzzle''), (''puzzle'', ''two ropes'')]"

definition example_store :: "str_dict vector_memory" where
  "example_store =
     add_memory (add_memory (VectorMemory_init 10) conversation_memory (Fin 0.4))
       puzzle_memory (Fin 0.7)"

definition twin_store :: "str_dict vector_memory" where
  "twin_store =
     add_memory (add_memory (VectorMemory_init 10) conversation_memory (Fin 0.4))
       conversation_memory (Fin 0.4)"

text \<open>Finite floats, and the number a finite score stands for.\<close>

definition is_finite :: "pyfloat \<Rightarrow> bool" where
  "is_finite v = (case v of Fin x \<Rightarrow> True | _ \<Rightarrow> False)"

definition real_key :: "pyfloat \<times> 'm \<Rightarrow> real" where
  "real_key e = (case fst e of Fin x \<Rightarrow> x | _ \<Rightarrow> 0)"

section \<open>GoalSystem\<close>

text \<open>\<open>str(n)\<close> of a Python int, as the f-strings of the goal messages print it.\<close>

fun nat_digits :: "nat \<Rightarrow> string" where
  "nat_digits n =
     (if n < 10 then [char_of (48 + n)]
      else nat_digits (n div 10) @ [char_of (48 + n mod 10)])"

declare nat_digits.simps [simp del]

definition py_str_int :: "int \<Rightarrow> string" where
  "py_str_int i = (if i < 0 then CHR ''-'' # nat_digits (nat (- i)) else nat_digits (nat i))"

text \<open>
  A goal is the dictionary \<open>add_goal\<close> builds; the key \<open>'completed'\<close> is absent until
  \<open>complete_goal\<close> sets it. Timestamps (\<open>datetime.now().isoformat()\<close>) are read from the
  clock, so every operation takes the current timestamp \<open>now\<close> as an argument.
\<close>

record goal =
  goal_id :: int
  description :: string
  priority :: int
  created :: string
  progress :: pyfloat
  completed :: "string option"

record goal_system =
  active_goals :: "goal list"
  completed_goals :: "goal list"
  max_goals :: int

definition GoalSystem_init :: goal_system where
  "GoalSystem_init = \<lparr>active_goals = [], completed_goals = [], max_goals = 5\<rparr>"

text \<open>Every operation returns its message and the tracker after it.\<close>

definition add_goal :: "string \<Rightarrow> goal_system \<Rightarrow> string \<Rightarrow> int \<Rightarrow> string \<times> goal_system" where
  "add_goal now gs descr prio =
     (if int (length (active_goals gs)) \<ge> max_goals gs
      then (''Cannot add more goals - limit reached'', gs)
      else
        (let g = \<lparr>goal_id = int (length (active_goals gs)) + 1, description = descr,
                  priority = prio, created = now, progress = Fin 0, completed = None\<rparr>
         in (''Goal added: '' @ descr, gs\<lparr>active_goals := active_goals gs @ [g]\<rparr>)))"

text \<open>
  The loop \<open>for i, goal in enumerate(self.active_goals): if goal['id'] == goal_id\<close>:
  the index of the first active goal with the id, if any.
\<close>

fun find_goal :: "goal list \<Rightarrow> int \<Rightarrow> nat option" where
  "find_goal [] gid = None"
| "find_goal (g # gs) gid =
     (if goal_id g = gid then Some 0 else map_option Suc (find_goal gs gid))"

definition complete_goal :: "string \<Rightarrow> goal_system \<Rightarrow> int \<Rightarrow> string \<times> goal_system" where
  "complete_goal now gs gid =
     (case find_goal (active_goals gs) gid of
        None \<Rightarrow> (''Goal not found'', gs)
      | Some i \<Rightarrow>
          (let completed_goal = (active_goals gs ! i)\<lparr>completed := Some now\<rparr>
           in (''Goal completed: '' @ description completed_goal,
               gs\<lparr>active_goals := take i (active_goals gs) @ drop (Suc i) (active_goals gs),
                  completed_goals := completed_goals gs @ [completed_goal]\<rparr>)))"

definition update_progress :: "string \<Rightarrow> goal_system \<Rightarrow> int \<Rightarrow> pyfloat \<Rightarrow> string \<times> goal_system" where
  "update_progress now gs gid p =
     (case find_goal (active_goals gs) gid of
        None \<Rightarrow> (''Goal not found'', gs)
      | Some i \<Rightarrow>
          (let g = (active_goals gs ! i)\<lparr>progress := py_max (Fin 0) (py_min (Fin 1) p)\<rparr>;
               gs1 = gs\<lparr>active_goals := (active_goals gs)[i := g]\<rparr>;
               gs2 = (if fge (progress g) (Fin 1) then snd (complete_goal now gs1 gid) else gs1)
           in (''Progress updated for goal '' @ py_str_int gid, gs2)))"

text \<open>Sequences of tracker operations, each with the timestamp the clock gave it.\<close>

datatype goal_op =
  Add_goal string int
| Update_progress int pyfloat
| Complete_goal int

fun apply_goal_op :: "goal_system \<Rightarrow> string \<times> goal_op \<Rightarrow> goal_system" where
  "apply_goal_op gs (now, Add_goal descr prio) = snd (add_goal now gs descr prio)"
| "apply_goal_op gs (now, Update_progress gid p) = snd (update_progress now gs gid p)"
| "apply_goal_op gs (now, Complete_goal gid) = snd (complete_goal now gs gid)"

definition run_goal_ops :: "goal_system \<Rightarrow> (string \<times> goal_op) list \<Rightarrow> goal_system" where
  "run_goal_ops gs ops = foldl apply_goal_op gs ops"

section \<open>Config and ThinkerGOAT.\_\_init\_\_\<close>

text \<open>
  \<open>Config\<close> keeps its options as attributes; \<open>load_from_file\<close> copies every key of the
  JSON object in config.json that names an existing attribute (\<open>hasattr\<close>, \<open>setattr\<close>),
  and leaves the defaults when the file is missing. The file is \<open>None\<close> when missing and
  the list of its keys and values otherwise; the attributes are the seven options (a key
  naming a method of the class is not modelled).
\<close>

datatype json = JString string | JBool bool | JInt int | JFloat pyfloat

type_synonym config = "(string \<times> json) list"

definition Config_init :: config where
  "Config_init =
     [(''ai_name'', JString ''THINKER-GOAT''), (''use_tts'', JBool True),
      (''tts_engine'', JString ''espeak''), (''learning_rate'', JFloat (Fin 0.25)),
      (''memory_size'', JInt 1000), (''tools_enabled'', JBool True),
      (''max_goals'', JInt 5)]"

definition load_from_file :: "config \<Rightarrow> (string \<times> json) list option \<Rightarrow> config" where
  "load_from_file cfg file =
     (case file of
        None \<Rightarrow> cfg
      | Some data \<Rightarrow>
          foldl (\<lambda>c (key, v). if key \<in> fst ` set c then AList.update key v c else c) cfg data)"

text \<open>
  The state \<open>ThinkerGOAT.__init__\<close> builds, from the content of config.json. The speech
  engine, the tool table and the personality hold nothing the goal tracker reads and are
  left out. \<open>GoalSystem()\<close> is called without arguments.
\<close>

record 'm thinker_goat =
  config :: config
  memory :: "'m vector_memory"
  goals :: goal_system
  feeling_engine :: feeling_engine
  self_awareness :: pyfloat
  learning_episodes :: int

definition ThinkerGOAT_init :: "(string \<times> json) list option \<Rightarrow> 'm thinker_goat" where
  "ThinkerGOAT_init file =
     \<lparr>config = load_from_file Config_init file,
      memory = VectorMemory_init 10,
      goals = GoalSystem_init,
      feeling_engine = FeelingEngine_init,
      self_awareness = Fin 0.1,
      learning_episodes = 0\<rparr>"

section \<open>ToolSystem\<close>

text \<open>
  The tools call into the interpreter and the operating system. These are parameters:
  \<open>py_eval\<close> is the builtin \<open>eval\<close> (\<open>Inr\<close> the \<open>str\<close> of the value, \<open>Inl\<close> the
  message of the exception it raises), \<open>py_exec\<close> the builtin \<open>exec\<close> in the restricted
  environment (\<open>Some\<close> the message of the exception, \<open>None\<close> when it runs through), and
  \<open>arity_error\<close> the message of the TypeError of a call with the wrong number of
  arguments. They are total functions: an evaluation that does not end is not modelled.
\<close>

record builtins =
  py_eval :: "string \<Rightarrow> string + string"
  py_exec :: "string \<Rightarrow> string option"
  arity_error :: "string \<Rightarrow> nat \<Rightarrow> string"

text \<open>
  The files: their contents by name, and the names \<open>open\<close> refuses for a reason of the
  system's (permissions, a directory), with the message of the error. \<open>open('')\<close> fails
  on every system, with FileNotFoundError.
\<close>

record file_system =
  files :: "string \<Rightarrow> string option"
  refused :: "string \<Rightarrow> string option"

definition py_repr :: "string \<Rightarrow> string" where
  "py_repr s = [CHR 0x27] @ s @ [CHR 0x27]"

definition no_such_file :: "string \<Rightarrow> string" where
  "no_such_file filename = ''[Errno 2] No such file or directory: '' @ py_repr filename"

definition open_write :: "file_system \<Rightarrow> string \<Rightarrow> string option" where
  "open_write fs filename = (if filename = [] then Some (no_such_file filename) else refused fs filename)"

definition open_read :: "file_system \<Rightarrow> string \<Rightarrow> string + string" where
  "open_read fs filename =
     (if filename = [] then Inl (no_such_file filename)
      else
        (case refused fs filename of
           Some msg \<Rightarrow> Inl msg
         | None \<Rightarrow>
             (case files fs filename of
                None \<Rightarrow> Inl (no_such_file filename)
              | Some content \<Rightarrow> Inr content)))"

definition web_search :: "string \<Rightarrow> string" where
  "web_search query =
     ''[SIMULATED SEARCH] Results for: '' @ query @ [CHR 0x0A] @
     ''- Result 1: Information about '' @ query @ [CHR 0x0A] @
     ''- Result 2: More details about '' @ query"

text \<open>The characters \<open>re.sub(r'[^0-9+\-*/(). ]', '', expression)\<close> keeps.\<close>

definition safe_char :: "char \<Rightarrow> bool" where
  "safe_char c = (is_digit c \<or> c \<in> set ''+-*/(). '')"

definition safe_expression :: "string \<Rightarrow> string" where
  "safe_expression expression = filter safe_char expression"

definition calculate :: "builtins \<Rightarrow> string \<Rightarrow> string" where
  "calculate b expression =
     (case py_eval b (safe_expression expression) of
        Inr result \<Rightarrow> ''Calculation: '' @ expression @ '' = '' @ result
      | Inl e \<Rightarrow> ''Calculation error: '' @ e)"

definition write_file :: "file_system \<Rightarrow> string \<Rightarrow> string \<Rightarrow> string \<times> file_system" where
  "write_file fs filename content =
     (case open_write fs filename of
        Some e \<Rightarrow> (''File write error: '' @ e, fs)
      | None \<Rightarrow>
          (''Successfully wrote to '' @ filename,
           fs\<lparr>files := (files fs)(filename \<mapsto> content)\<rparr>))"

definition read_file :: "file_system \<Rightarrow> string \<Rightarrow> string" where
  "read_file fs filename =
     (case open_read fs filename of
        Inl e \<Rightarrow> ''File read error: '' @ e
      | Inr content \<Rightarrow> ''File content from '' @ filename @ '':'' @ [CHR 0x0A] @ content)"

definition execute_python :: "builtins \<Rightarrow> string \<Rightarrow> string" where
  "execute_python b code =
     (if list_ex (\<lambda>dangerous. sublist dangerous code)
           [''import os'', ''import sys'', ''__import__'', ''eval('', ''exec('']
      then ''Error: Potentially unsafe code detected''
      else
        (case py_exec b code of
           None \<Rightarrow> ''Code executed successfully''
         | Some e \<Rightarrow> ''Execution error: '' @ e))"

definition available_tools :: "string list" where
  "available_tools = [''web_search'', ''calculate'', ''write_file'', ''read_file'', ''execute_python'']"

text \<open>
  \<open>use_tool(tool_name, *args)\<close>: the call of the tool with the arguments given; a wrong
  number of arguments raises TypeError inside the \<open>try\<close>, which turns it into the
  "Tool error" string.
\<close>

definition use_tool ::
  "builtins \<Rightarrow> file_system \<Rightarrow> string \<Rightarrow> string list \<Rightarrow> string \<times> file_system" where
  "use_tool b fs tool_name args =
     (if tool_name \<notin> set available_tools then (''Tool '' @ tool_name @ '' not available'', fs)
      else if tool_name = ''write_file'' then
        (case args of
           [filename, content] \<Rightarrow> write_file fs filename content
         | _ \<Rightarrow> (''Tool error: '' @ arity_error b tool_name (length args), fs))
      else
        (case args of
           [a] \<Rightarrow>
             (if tool_name = ''web_search'' then (web_search a, fs)
              else if tool_name = ''calculate'' then (calculate b a, fs)
              else if tool_name = ''read_file'' then (read_file fs a, fs)
              else (execute_python b a, fs))
         | _ \<Rightarrow> (''Tool error: '' @ arity_error b tool_name (length args), fs)))"

subsection \<open>An evaluator for integer expressions\<close>

text \<open>
  To run \<open>calculate\<close> on examples, \<open>eval\<close> is given here on the strings built from
  decimal integer literals, \<open>+\<close>, \<open>-\<close>, \<open>*\<close>, parentheses and spaces: \<open>Inr\<close> the
  \<open>str\<close> of the integer, or \<open>Inl ''invalid syntax''\<close> where \<open>eval\<close> raises (the text
  of the message is not modelled). Strings with other characters, with \<open>**\<close> or with
  \<open>()\<close> are outside this fragment (division and floats, powers, the empty tuple): for
  them the answer is \<open>Inl ''not modelled''\<close> and says nothing about \<open>eval\<close>.
\<close>

datatype token = Num string | Op char

fun lex :: "string \<Rightarrow> string \<Rightarrow> token list" where
  "lex cur [] = (if cur = [] then [] else [Num cur])"
| "lex cur (c # cs) =
     (if is_digit c then lex (cur @ [c]) cs
      else (if cur = [] then [] else [Num cur]) @
           (if c = CHR '' '' then lex [] cs else Op c # lex [] cs))"

text \<open>A decimal literal with a leading zero is a syntax error unless all digits are zero.\<close>

definition valid_literal :: "string \<Rightarrow> bool" where
  "valid_literal ds = (ds \<noteq> [] \<and> (hd ds \<noteq> CHR ''0'' \<or> list_all (\<lambda>c. c = CHR ''0'') ds))"

definition literal_value :: "string \<Rightarrow> int" where
  "literal_value ds = int (foldl (\<lambda>n c. 10 * n + digit_val c) 0 ds)"

datatype stack_op = SAdd | SSub | SMul | SNeg | SPos | SPar

text \<open>The signs before an operand apply to it first.\<close>

fun reduce_unary :: "int \<Rightarrow> stack_op list \<Rightarrow> int \<times> stack_op list" where
  "reduce_unary v (SNeg # ops) = reduce_unary (- v) ops"
| "reduce_unary v (SPos # ops) = reduce_unary v ops"
| "reduce_unary v ops = (v, ops)"

text \<open>
  Before a binary operator of precedence \<open>p\<close> (1 for \<open>+\<close> and \<open>-\<close>, 2 for \<open>*\<close>) is
  pushed, the operators of at least that precedence on the stack are applied.
\<close>

fun reduce_binary :: "nat \<Rightarrow> int list \<Rightarrow> stack_op list \<Rightarrow> (int list \<times> stack_op list) option" where
  "reduce_binary p (b # a # vs) (SMul # ops) = reduce_binary p ((a * b) # vs) ops"
| "reduce_binary p (b # a # vs) (SAdd # ops) =
     (if p \<le> 1 then reduce_binary p ((a + b) # vs) ops else Some (b # a # vs, SAdd # ops))"
| "reduce_binary p (b # a # vs) (SSub # ops) =
     (if p \<le> 1 then reduce_binary p ((a - b) # vs) ops else Some (b # a # vs, SSub # ops))"
| "reduce_binary p vs [] = Some (vs, [])"
| "reduce_binary p vs (SPar # ops) = Some (vs, SPar # ops)"
| "reduce_binary p vs ops = None"

text \<open>One token; the flag says whether an operand is expected next.\<close>

fun eval_step ::
  "int list \<times> stack_op list \<times> bool \<Rightarrow> token \<Rightarrow> (int list \<times> stack_op list \<times> bool) option" where
  "eval_step (vs, ops, True) (Num ds) =
     (if valid_literal ds
      then (case reduce_unary (literal_value ds) ops of (v, ops') \<Rightarrow> Some (v # vs, ops', False))
      else None)"
| "eval_step (vs, ops, False) (Num ds) = None"
| "eval_step (vs, ops, True) (Op c) =
     (if c = CHR ''+'' then Some (vs, SPos # ops, True)
      else if c = CHR ''-'' then Some (vs, SNeg # ops, True)
      else if c = CHR ''('' then Some (vs, SPar # ops, True)
      else None)"
| "eval_step (vs, ops, False) (Op c) =
     (if c = CHR ''+'' then
        (case reduce_binary 1 vs ops of Some (vs', ops') \<Rightarrow> Some (vs', SAdd # ops', True) | None \<Rightarrow> None)
      else if c = CHR ''-'' then
        (case reduce_binary 1 vs ops of Some (vs', ops') \<Rightarrow> Some (vs', SSub # ops', True) | None \<Rightarrow> None)
      else if c = CHR ''*'' then
        (case reduce_binary 2 vs ops of Some (vs', ops') \<Rightarrow> Some (vs', SMul # ops', True) | None \<Rightarrow> None)
      else if c = CHR '')'' then
        (case reduce_binary 1 vs ops of
           Some (v # vs', SPar # ops') \<Rightarrow>
             (case reduce_unary v ops' of (v', ops'') \<Rightarrow> Some (v' # vs', ops'', False))
         | _ \<Rightarrow> None)
      else None)"

fun eval_tokens ::
  "int list \<times> stack_op list \<times> bool \<Rightarrow> token list \<Rightarrow> (int list \<times> stack_op list \<times> bool) option" where
  "eval_tokens st [] = Some st"
| "eval_tokens st (t # ts) = (case eval_step st t of None \<Rightarrow> None | Some st' \<Rightarrow> eval_tokens st' ts)"

fun has_empty_parens :: "token list \<Rightarrow> bool" where
  "has_empty_parens (Op a # Op b # ts) =
     ((a = CHR ''('' \<and> b = CHR '')'') \<or> has_empty_parens (Op b # ts))"
| "has_empty_parens (t # ts) = has_empty_parens ts"
| "has_empty_parens [] = False"

definition in_fragment :: "string \<Rightarrow> bool" where
  "in_fragment s =
     (list_all (\<lambda>c. is_digit c \<or> c \<in> set ''+-*() '') s \<and> \<not> sublist ''**'' s \<and>
      \<not> has_empty_parens (lex [] s))"

definition eval_int_expr :: "string \<Rightarrow> string + string" where
  "eval_int_expr s =
     (if \<not> in_fragment s then Inl ''not modelled''
      else
        (case eval_tokens ([], [], True) (lex [] s) of
           Some (vs, ops, False) \<Rightarrow>
             (case reduce_binary 1 vs ops of
                Some ([v], []) \<Rightarrow> Inr (py_str_int v)
              | _ \<Rightarrow> Inl ''invalid syntax'')
         | _ \<Rightarrow> Inl ''invalid syntax''))"

definition example_builtins :: builtins where
  "example_builtins =
     \<lparr>py_eval = eval_int_expr, py_exec = (\<lambda>code. None), arity_error = (\<lambda>name n. ''wrong number of arguments'')\<rparr>"

definition empty_file_system :: file_system where
  "empty_file_system = \<lparr>files = (\<lambda>name. None), refused = (\<lambda>name. None)\<rparr>"

section \<open>ThinkerGOAT.process\_command\<close>

text \<open>
  \<open>process_command\<close> ends in one of three ways: it raises, it returns the value of a call
  (\<open>return self.tools.use_tool(...)\<close>, \<open>return self.goals.add_goal(...)\<close>, ...), or it
  runs off the end of the \<open>if\<close>/\<open>elif\<close> chain and returns \<open>None\<close>. The calls are data
  here: \<open>Use_tool name args\<close> is \<open>self.tools.use_tool(name, *args)\<close>, modelled by
  \<open>use_tool\<close>, and the goal calls are \<open>add_goal\<close> (with priority 1) and
  \<open>update_progress\<close>.
\<close>

datatype call =
  Use_tool string "string list"
| Add_goal_call string
| Update_progress_call int pyfloat
| Learn_code_writing
| Learn_logic_puzzles
| Get_status
| Show_goals
| Show_memory_stats
| Show_help
| Have_conversation string

datatype control = Raise py_exception | Return_None | Return_call call

definition process_command :: "string \<Rightarrow> control" where
  "process_command command0 =
     (let command = py_strip (py_lower command0) in
      if prefix ''search '' command then Return_call (Use_tool ''web_search'' [drop 7 command])
      else if prefix ''calculate '' command then Return_call (Use_tool ''calculate'' [drop 10 command])
      else if prefix ''write_file '' command then
        (let parts = py_split1 CHR '' '' (drop 10 command)
         in if length parts = 2 then Return_call (Use_tool ''write_file'' [parts ! 0, parts ! 1])
            else Return_None)
      else if prefix ''read_file '' command then Return_call (Use_tool ''read_file'' [drop 9 command])
      else if prefix ''run '' command then Return_call (Use_tool ''execute_python'' [drop 4 command])
      else if prefix ''add_goal '' command then Return_call (Add_goal_call (drop 9 command))
      else if prefix ''progress '' command then
        (let parts = py_split (drop 9 command)
         in if length parts = 2 then
              (case py_int (parts ! 0) of
                 None \<Rightarrow> Raise ValueError
               | Some gid \<Rightarrow>
                   (case py_float (parts ! 1) of
                      None \<Rightarrow> Raise ValueError
                    | Some p \<Rightarrow> Return_call (Update_progress_call gid p)))
            else Return_None)
      else if command = ''learn code'' then Return_call Learn_code_writing
      else if command = ''learn logic'' then Return_call Learn_logic_puzzles
      else if command = ''status'' then Return_call Get_status
      else if command = ''goals'' then Return_call Show_goals
      else if command = ''memory'' then Return_call Show_memory_stats
      else if command = ''help'' then Return_call Show_help
      else Return_call (Have_conversation command))"

section \<open>Properties of FeelingEngine\<close>

lemma py_clamp_in_range:
  assumes "lo \<le> hi"
  shows "in_range lo hi (py_max (Fin lo) (py_min (Fin hi) x))"
  using assms by (cases x) (simp_all add: py_max_def py_min_def fgt_def in_range_def)

lemma py_clamp_is_clamp:
  assumes "lo \<le> hi" and "x \<noteq> NaN"
  shows "py_max (Fin lo) (py_min (Fin hi) x) = clamp x (Fin lo) (Fin hi)"
  using assms by (cases x) (auto simp: py_max_def py_min_def fgt_def clamp_def)

lemma react_in_range:
  "in_range 0 100 (energy (react s r)) \<and> in_range 0 1 (curiosity (react s r))"
  by (simp add: react_def Let_def py_clamp_in_range)

lemma react_all_in_range:
  "in_range 0 100 (energy (react_all rs)) \<and> in_range 0 1 (curiosity (react_all rs))"
proof (cases rs rule: rev_cases)
  case Nil
  then show ?thesis
    by (simp add: react_all_def FeelingEngine_init_def in_range_def)
next
  case (snoc ys y)
  then show ?thesis
    using react_in_range [of "foldl react FeelingEngine_init ys" y]
    by (simp add: react_all_def)
qed

text \<open>
  C8. After every finite sequence of \<open>react\<close> calls on a fresh engine, with rewards of
  any sign or magnitude (the infinities and NaN included), the energy is a finite number
  in [0, 100] and the curiosity a finite number in [0, 1]. One call sets the energy to
  \<open>clamp(energy + 2 * reward, 0, 100)\<close> and the curiosity to
  \<open>clamp(curiosity + 0.1 * reward, 0, 1)\<close>, with the clamp of the specification, for
  every reward that is a number; a NaN reward sets them to the upper bounds 100 and 1.
\<close>

theorem react_clamps_energy_and_curiosity:
  "in_range 0 100 (energy (react_all rs)) \<and> in_range 0 1 (curiosity (react_all rs)) \<and>
   in_range 0 100 (energy (react s r)) \<and> in_range 0 1 (curiosity (react s r)) \<and>
   (fadd (energy s) (fmul (Fin 2) r) \<noteq> NaN \<longrightarrow>
      energy (react s r) = clamp (fadd (energy s) (fmul (Fin 2) r)) (Fin 0) (Fin 100)) \<and>
   (fadd (curiosity s) (fmul (Fin 0.1) r) \<noteq> NaN \<longrightarrow>
      curiosity (react s r) = clamp (fadd (curiosity s) (fmul (Fin 0.1) r)) (Fin 0) (Fin 1)) \<and>
   (r = NaN \<longrightarrow> energy (react s r) = Fin 100 \<and> curiosity (react s r) = Fin 1)"
proof -
  have e: "fadd (energy s) (fmul (Fin 2) r) \<noteq> NaN \<Longrightarrow>
      energy (react s r) = clamp (fadd (energy s) (fmul (Fin 2) r)) (Fin 0) (Fin 100)"
    by (simp add: react_def Let_def py_clamp_is_clamp)
  have c: "fadd (curiosity s) (fmul (Fin 0.1) r) \<noteq> NaN \<Longrightarrow>
      curiosity (react s r) = clamp (fadd (curiosity s) (fmul (Fin 0.1) r)) (Fin 0) (Fin 1)"
    by (simp add: react_def Let_def py_clamp_is_clamp)
  have n: "r = NaN \<Longrightarrow> energy (react s r) = Fin 100 \<and> curiosity (react s r) = Fin 1"
    by (cases "energy s"; cases "curiosity s")
      (simp_all add: react_def Let_def py_max_def py_min_def fgt_def)
  from e c n react_in_range [of s r] react_all_in_range [of rs] show ?thesis
    by blast
qed

theorem react_clamps_energy_and_curiosity_witness:
  "energy (react FeelingEngine_init (Fin 20)) = Fin 100 \<and>
   curiosity (react FeelingEngine_init (Fin 20)) = Fin 1 \<and>
   energy (react FeelingEngine_init (Fin (- 50))) = Fin 0 \<and>
   curiosity (react FeelingEngine_init (Fin (- 50))) = Fin 0 \<and>
   energy (react FeelingEngine_init (Fin 1)) = Fin 77 \<and>
   curiosity (react FeelingEngine_init (Fin 1)) = Fin 0.7 \<and>
   energy (react FeelingEngine_init NaN) = Fin 100 \<and>
   curiosity (react FeelingEngine_init NaN) = Fin 1"
  using react_clamps_energy_and_curiosity [of "[]" FeelingEngine_init "Fin 20"]
    react_clamps_energy_and_curiosity [of "[]" FeelingEngine_init "Fin (- 50)"]
    react_clamps_energy_and_curiosity [of "[]" FeelingEngine_init "Fin 1"]
    react_clamps_energy_and_curiosity [of "[]" FeelingEngine_init NaN]
  by (simp add: FeelingEngine_init_def clamp_def)

section \<open>Properties of GoalSystem\<close>

lemma find_goal_Some_lt: "find_goal gs gid = Some i \<Longrightarrow> i < length gs \<and> goal_id (gs ! i) = gid"
  by (induction gs arbitrary: i) (auto split: if_splits)

lemma find_goal_None_iff: "find_goal gs gid = None \<longleftrightarrow> gid \<notin> goal_id ` set gs"
  by (induction gs) auto

lemma complete_goal_length:
  "length (active_goals (snd (complete_goal now gs gid))) \<le> length (active_goals gs)"
  by (auto simp: complete_goal_def Let_def split: option.splits dest: find_goal_Some_lt)

lemma complete_goal_max: "max_goals (snd (complete_goal now gs gid)) = max_goals gs"
  by (simp add: complete_goal_def Let_def split: option.splits)

lemma update_progress_length:
  "length (active_goals (snd (update_progress now gs gid p))) \<le> length (active_goals gs)"
proof (cases "find_goal (active_goals gs) gid")
  case None
  then show ?thesis by (simp add: update_progress_def)
next
  case (Some i)
  then show ?thesis
    using complete_goal_length [of now "gs\<lparr>active_goals := (active_goals gs)[i := (active_goals gs ! i)\<lparr>progress := py_max (Fin 0) (py_min (Fin 1) p)\<rparr>]\<rparr>" gid]
    by (simp add: update_progress_def Let_def)
qed

lemma update_progress_max: "max_goals (snd (update_progress now gs gid p)) = max_goals gs"
  by (simp add: update_progress_def Let_def complete_goal_max split: option.splits)

lemma add_goal_max: "max_goals (snd (add_goal now gs d p)) = max_goals gs"
  by (simp add: add_goal_def Let_def)

lemma add_goal_length:
  "int (length (active_goals gs)) \<le> max_goals gs \<Longrightarrow>
   int (length (active_goals (snd (add_goal now gs d p)))) \<le> max_goals gs"
  by (simp add: add_goal_def Let_def)

lemma apply_goal_op_bound:
  assumes "int (length (active_goals gs)) \<le> max_goals gs"
  shows "int (length (active_goals (apply_goal_op gs op))) \<le> max_goals (apply_goal_op gs op)"
proof (cases op)
  case (Pair now o1)
  show ?thesis
  proof (cases o1)
    case (Add_goal d p)
    with Pair assms show ?thesis by (simp add: add_goal_max add_goal_length)
  next
    case (Update_progress gid p)
    with Pair assms update_progress_length [of now gs gid p] show ?thesis
      by (simp add: update_progress_max)
  next
    case (Complete_goal gid)
    with Pair assms complete_goal_length [of now gs gid] show ?thesis
      by (simp add: complete_goal_max)
  qed
qed

lemma apply_goal_op_max: "max_goals (apply_goal_op gs op) = max_goals gs"
  by (cases op; cases "snd op") (auto simp: add_goal_max update_progress_max complete_goal_max)

lemma run_goal_ops_bound:
  "int (length (active_goals gs)) \<le> max_goals gs \<Longrightarrow>
   int (length (active_goals (run_goal_ops gs ops))) \<le> max_goals gs \<and>
   max_goals (run_goal_ops gs ops) = max_goals gs"
  unfolding run_goal_ops_def
proof (induction ops arbitrary: gs)
  case Nil
  then show ?case by simp
next
  case (Cons op ops)
  from Cons.IH [of "apply_goal_op gs op"] apply_goal_op_bound [OF Cons.prems, of op]
  show ?case by (simp add: apply_goal_op_max)
qed

text \<open>
  C2. Whenever the number of active goals is below \<open>max_goals\<close>, \<open>add_goal\<close> returns the
  message "Goal added: ..." and appends exactly one goal (progress 0, id = old count + 1)
  to the active list, so the active count grows by exactly 1 and nothing else changes.
  Whenever the active count equals \<open>max_goals\<close>, it returns the limit message
  "Cannot add more goals - limit reached" and the tracker is unchanged.
\<close>

theorem add_goal_below_and_at_limit:
  "(int (length (active_goals gs)) < max_goals gs \<longrightarrow>
      fst (add_goal now gs d p) = ''Goal added: '' @ d \<and>
      length (active_goals (snd (add_goal now gs d p))) = length (active_goals gs) + 1 \<and>
      active_goals (snd (add_goal now gs d p)) =
        active_goals gs @
          [\<lparr>goal_id = int (length (active_goals gs)) + 1, description = d, priority = p,
            created = now, progress = Fin 0, completed = None\<rparr>] \<and>
      completed_goals (snd (add_goal now gs d p)) = completed_goals gs \<and>
      max_goals (snd (add_goal now gs d p)) = max_goals gs) \<and>
   (int (length (active_goals gs)) = max_goals gs \<longrightarrow>
      add_goal now gs d p = (''Cannot add more goals - limit reached'', gs))"
  by (simp add: add_goal_def Let_def)


theorem add_goal_below_and_at_limit_witness:
  "length (active_goals (snd (add_goal ''t'' GoalSystem_init ''write tests'' 1))) = 1 \<and>
   fst (add_goal ''t'' GoalSystem_init ''write tests'' 1) = ''Goal added: write tests'' \<and>
   length (active_goals (run_goal_ops GoalSystem_init
      [(''t1'', Add_goal ''a'' 1), (''t2'', Add_goal ''b'' 1), (''t3'', Add_goal ''c'' 1),
       (''t4'', Add_goal ''d'' 1), (''t5'', Add_goal ''e'' 1)])) = 5 \<and>
   add_goal ''t6'' (run_goal_ops GoalSystem_init
      [(''t1'', Add_goal ''a'' 1), (''t2'', Add_goal ''b'' 1), (''t3'', Add_goal ''c'' 1),
       (''t4'', Add_goal ''d'' 1), (''t5'', Add_goal ''e'' 1)]) ''f'' 1 =
     (''Cannot add more goals - limit reached'',
      run_goal_ops GoalSystem_init
      [(''t1'', Add_goal ''a'' 1), (''t2'', Add_goal ''b'' 1), (''t3'', Add_goal ''c'' 1),
       (''t4'', Add_goal ''d'' 1), (''t5'', Add_goal ''e'' 1)])"
proof -
  let ?full = "run_goal_ops GoalSystem_init
      [(''t1'', Add_goal ''a'' 1), (''t2'', Add_goal ''b'' 1), (''t3'', Add_goal ''c'' 1),
       (''t4'', Add_goal ''d'' 1), (''t5'', Add_goal ''e'' 1)]"
  have n: "length (active_goals ?full) = 5" and m: "max_goals ?full = 5"
    by (simp_all add: run_goal_ops_def GoalSystem_init_def add_goal_def Let_def)
  have z: "length (active_goals GoalSystem_init) = 0" "max_goals GoalSystem_init = 5"
    by (simp_all add: GoalSystem_init_def)
  from add_goal_below_and_at_limit [of GoalSystem_init "''t''" "''write tests''" 1]
    add_goal_below_and_at_limit [of ?full "''t6''" "''f''" 1] n m z
  show ?thesis by simp
qed



lemma find_goal_removed:
  assumes "find_goal gs gid = Some i" and "distinct (map goal_id gs)"
  shows "find_goal (take i gs @ drop (Suc i) gs) gid = None"
proof -
  from assms(1) have i: "i < length gs" "goal_id (gs ! i) = gid"
    by (simp_all add: find_goal_Some_lt)
  have "gid \<notin> set (map goal_id (take i gs @ drop (Suc i) gs))"
  proof
    assume "gid \<in> set (map goal_id (take i gs @ drop (Suc i) gs))"
    moreover have "map goal_id gs = map goal_id (take i gs) @ gid # map goal_id (drop (Suc i) gs)"
      using i by (metis Cons_nth_drop_Suc append_take_drop_id list.simps(9) map_append)
    ultimately show False using assms(2) by auto
  qed
  then show ?thesis by (auto simp: find_goal_None_iff)
qed

lemma find_goal_update:
  "goal_id g = goal_id (gs ! i) \<Longrightarrow> find_goal (gs[i := g]) gid = find_goal gs gid"
proof (induction gs arbitrary: i)
  case Nil
  then show ?case by simp
next
  case (Cons a gs)
  then show ?case by (cases i) auto
qed

lemma update_progress_unique_id:
  assumes found: "find_goal (active_goals gs) gid = Some i"
    and uniq: "distinct (map goal_id (active_goals gs))"
    and g': "g' = (active_goals gs ! i)\<lparr>progress := py_max (Fin 0) (py_min (Fin 1) p)\<rparr>"
    and gs': "gs' = snd (update_progress now gs gid p)"
  shows "fst (update_progress now gs gid p) = ''Progress updated for goal '' @ py_str_int gid"
    and "p \<noteq> NaN \<Longrightarrow> progress g' = clamp p (Fin 0) (Fin 1)"
    and "\<not> fge (progress g') (Fin 1) \<Longrightarrow> gs' = gs\<lparr>active_goals := (active_goals gs)[i := g']\<rparr>"
    and "fge (progress g') (Fin 1) \<Longrightarrow>
           gs' = gs\<lparr>active_goals := take i (active_goals gs) @ drop (Suc i) (active_goals gs),
                    completed_goals := completed_goals gs @ [g'\<lparr>completed := Some now\<rparr>]\<rparr>"
    and "fge (progress g') (Fin 1) \<Longrightarrow> complete_goal now2 gs' gid = (''Goal not found'', gs')"
    and "fge (progress g') (Fin 1) \<Longrightarrow> update_progress now2 gs' gid q = (''Goal not found'', gs')"
proof -
  from found have i: "i < length (active_goals gs)" "goal_id (active_goals gs ! i) = gid"
    by (simp_all add: find_goal_Some_lt)
  have f1: "find_goal ((active_goals gs)[i := g']) gid = Some i"
    using found by (simp add: find_goal_update g')
  show "fst (update_progress now gs gid p) = ''Progress updated for goal '' @ py_str_int gid"
    using found by (simp add: update_progress_def Let_def)
  show "p \<noteq> NaN \<Longrightarrow> progress g' = clamp p (Fin 0) (Fin 1)"
    by (simp add: g' py_clamp_is_clamp)
  show "\<not> fge (progress g') (Fin 1) \<Longrightarrow> gs' = gs\<lparr>active_goals := (active_goals gs)[i := g']\<rparr>"
    using found by (simp add: gs' update_progress_def Let_def g')
  have moved: "gs' = gs\<lparr>active_goals := take i (active_goals gs) @ drop (Suc i) (active_goals gs),
                    completed_goals := completed_goals gs @ [g'\<lparr>completed := Some now\<rparr>]\<rparr>"
    if "fge (progress g') (Fin 1)"
    using that found f1 i
    by (simp add: gs' update_progress_def Let_def g' complete_goal_def drop_update_cancel)
  then show "fge (progress g') (Fin 1) \<Longrightarrow>
           gs' = gs\<lparr>active_goals := take i (active_goals gs) @ drop (Suc i) (active_goals gs),
                    completed_goals := completed_goals gs @ [g'\<lparr>completed := Some now\<rparr>]\<rparr>" .
  have gone: "find_goal (active_goals gs') gid = None" if "fge (progress g') (Fin 1)"
    using moved [OF that] find_goal_removed [OF found uniq] by simp
  show "fge (progress g') (Fin 1) \<Longrightarrow> complete_goal now2 gs' gid = (''Goal not found'', gs')"
    using gone by (simp add: complete_goal_def)
  show "fge (progress g') (Fin 1) \<Longrightarrow> update_progress now2 gs' gid q = (''Goal not found'', gs')"
    using gone by (simp add: update_progress_def)
qed


text \<open>
  C6 fails on the code: \<open>add_goal\<close> numbers a goal \<open>len(active_goals) + 1\<close>, so after a
  removal the next goal gets an id that is already taken. Add "a" and "b" (ids 1, 2),
  complete goal 1, add "c": "c" gets id 2, the id of the still active "b", and is the
  second of two active goals with id 2.
\<close>

theorem goal_id_reused_after_completion:
  "map (\<lambda>g. (goal_id g, description g))
     (active_goals (run_goal_ops GoalSystem_init
        [(''t1'', Add_goal ''a'' 1), (''t2'', Add_goal ''b'' 1),
         (''t3'', Complete_goal 1), (''t4'', Add_goal ''c'' 1)])) =
   [(2, ''b''), (2, ''c'')]"
  by (simp add: run_goal_ops_def GoalSystem_init_def add_goal_def complete_goal_def Let_def)

text \<open>
  C1 fails on the code, through the same reuse of ids. Add "a", "b", "c", complete goal 1
  by \<open>update_progress(1, 1.0)\<close> and add "d": the active goals are "b" (id 2), "c" (id 3)
  and "d" (id 3). \<open>update_progress(3, 1.2)\<close> stores the clamped progress 1.0 in "c" and
  moves "c" to the completed list; the second completion attempt for id 3 does not fail
  with "Goal not found": it completes "d". (While the ids of the active goals are
  distinct, the claim holds: lemma \<open>update_progress_unique_id\<close>.)
\<close>

theorem second_completion_hits_other_goal:
  "map (\<lambda>g. (goal_id g, description g))
     (active_goals (run_goal_ops GoalSystem_init
        [(''t1'', Add_goal ''a'' 1), (''t2'', Add_goal ''b'' 1), (''t3'', Add_goal ''c'' 1),
         (''t4'', Update_progress 1 (Fin 1)), (''t5'', Add_goal ''d'' 1)])) =
     [(2, ''b''), (3, ''c''), (3, ''d'')] \<and>
   map (\<lambda>g. (description g, progress g))
     (completed_goals (run_goal_ops GoalSystem_init
        [(''t1'', Add_goal ''a'' 1), (''t2'', Add_goal ''b'' 1), (''t3'', Add_goal ''c'' 1),
         (''t4'', Update_progress 1 (Fin 1)), (''t5'', Add_goal ''d'' 1),
         (''t6'', Update_progress 3 (Fin 1.2))])) =
     [(''a'', Fin 1), (''c'', Fin 1)] \<and>
   fst (complete_goal ''t7'' (run_goal_ops GoalSystem_init
        [(''t1'', Add_goal ''a'' 1), (''t2'', Add_goal ''b'' 1), (''t3'', Add_goal ''c'' 1),
         (''t4'', Update_progress 1 (Fin 1)), (''t5'', Add_goal ''d'' 1),
         (''t6'', Update_progress 3 (Fin 1.2))]) 3) = ''Goal completed: d'' \<and>
   fst (update_progress ''t7'' (run_goal_ops GoalSystem_init
        [(''t1'', Add_goal ''a'' 1), (''t2'', Add_goal ''b'' 1), (''t3'', Add_goal ''c'' 1),
         (''t4'', Update_progress 1 (Fin 1)), (''t5'', Add_goal ''d'' 1),
         (''t6'', Update_progress 3 (Fin 1.2))]) 3 (Fin 1)) = ''Progress updated for goal 3''"
  by code_simp

section \<open>Properties of VectorMemory\<close>

lemma is_finite_iff: "is_finite v \<longleftrightarrow> (\<exists>x. v = Fin x)"
  by (cases v) (simp_all add: is_finite_def)

lemma finite_key_cmp:
  assumes "is_finite (fst a)" and "is_finite (fst b)"
  shows "flt (fst a) (fst b) = (real_key a < real_key b)"
    and "feq (fst a) (fst b) = (real_key a = real_key b)"
    and "fge (fst a) (fst b) = (real_key b \<le> real_key a)"
  using assms by (auto simp: is_finite_iff real_key_def feq_def fge_def fle_def)

lemma tuple_lt_finite:
  assumes "is_finite (fst a)" and "is_finite (fst b)"
  shows "tuple_lt deq a b =
     (if real_key a \<noteq> real_key b then Inr (real_key a < real_key b)
      else if \<not> deq (snd a) (snd b) then Inl TypeError else Inr False)"
  by (simp add: tuple_lt_def finite_key_cmp [OF assms])

lemma tuple_lt_error: "tuple_lt deq a b = Inl e \<Longrightarrow> e = TypeError"
  by (simp add: tuple_lt_def split: if_splits)

lemma insort_py_Cons:
  "insort_py deq x (y # ys) = Inr r \<longleftrightarrow>
     (tuple_lt deq x y = Inr True \<and> r = x # y # ys) \<or>
     (tuple_lt deq x y = Inr False \<and> (\<exists>r'. insort_py deq x ys = Inr r' \<and> r = y # r'))"
proof (cases "tuple_lt deq x y")
  case (Inl e)
  then show ?thesis by simp
next
  case (Inr b)
  then show ?thesis
    by (cases b; cases "insort_py deq x ys") auto
qed

lemma insort_py_error: "insort_py deq x ys = Inl e \<Longrightarrow> e = TypeError"
proof (induction ys)
  case Nil
  then show ?case by simp
next
  case (Cons y ys)
  show ?case
  proof (cases "tuple_lt deq x y")
    case (Inl e')
    with Cons.prems tuple_lt_error [of deq x y e'] show ?thesis by simp
  next
    case (Inr b)
    with Cons show ?thesis
      by (cases b; cases "insort_py deq x ys") simp_all
  qed
qed

lemma sort_py_error: "sort_py deq acc xs = Inl e \<Longrightarrow> e = TypeError"
proof (induction xs arbitrary: acc)
  case Nil
  then show ?case by simp
next
  case (Cons x xs)
  then show ?case
    by (cases "insort_py deq x acc") (simp_all add: insort_py_error)
qed

lemma insort_py_set: "insort_py deq x ys = Inr r \<Longrightarrow> set r = insert x (set ys)"
proof (induction ys arbitrary: r)
  case Nil
  then show ?case by auto
next
  case (Cons y ys)
  from Cons.prems show ?case
    unfolding insort_py_Cons using Cons.IH by auto
qed

lemma sort_py_set: "sort_py deq acc xs = Inr r \<Longrightarrow> set r = set acc \<union> set xs"
proof (induction xs arbitrary: acc)
  case Nil
  then show ?case by simp
next
  case (Cons x xs)
  from Cons.prems obtain acc' where a: "insort_py deq x acc = Inr acc'" "sort_py deq acc' xs = Inr r"
    by (cases "insort_py deq x acc") simp_all
  from Cons.IH [OF a(2)] insort_py_set [OF a(1)] show ?case by auto
qed

lemma insort_py_sorted:
  assumes "insort_py deq x ys = Inr r"
    and "is_finite (fst x)" and "\<forall>y\<in>set ys. is_finite (fst y)"
    and "sorted_wrt (\<lambda>a b. real_key a \<le> real_key b) ys"
  shows "sorted_wrt (\<lambda>a b. real_key a \<le> real_key b) r \<and>
         (\<forall>y\<in>set ys. real_key x = real_key y \<longrightarrow> deq (snd x) (snd y))"
  using assms
proof (induction ys arbitrary: r)
  case Nil
  then show ?case by auto
next
  case (Cons y ys)
  have fy: "is_finite (fst y)" using Cons.prems(3) by simp
  note tl = tuple_lt_finite [OF Cons.prems(2) fy, of deq]
  from Cons.prems(1) consider
    (stop) "tuple_lt deq x y = Inr True" "r = x # y # ys"
    | (go) r' where "tuple_lt deq x y = Inr False" "insort_py deq x ys = Inr r'" "r = y # r'"
    unfolding insort_py_Cons by blast
  then show ?case
  proof cases
    case stop
    from stop(1) tl have lt: "real_key x < real_key y"
      by (simp split: if_splits)
    have "\<forall>z\<in>set ys. real_key y \<le> real_key z" using Cons.prems(4) by simp
    with lt have "\<forall>z\<in>set (y # ys). real_key x < real_key z" by fastforce
    with Cons.prems(4) stop(2) show ?thesis by fastforce
  next
    case go
    from go(1) tl have ge: "real_key y \<le> real_key x"
      and eq: "real_key x = real_key y \<longrightarrow> deq (snd x) (snd y)"
      by (simp_all split: if_splits)
    have fys: "\<forall>y\<in>set ys. is_finite (fst y)" and sys: "sorted_wrt (\<lambda>a b. real_key a \<le> real_key b) ys"
      using Cons.prems(3,4) by simp_all
    from Cons.IH [OF go(2) Cons.prems(2) fys sys]
    have ih: "sorted_wrt (\<lambda>a b. real_key a \<le> real_key b) r'"
      "\<forall>y\<in>set ys. real_key x = real_key y \<longrightarrow> deq (snd x) (snd y)" by simp_all
    have "set r' = insert x (set ys)" by (rule insort_py_set [OF go(2)])
    moreover have "\<forall>z\<in>set ys. real_key y \<le> real_key z" using Cons.prems(4) by simp
    ultimately have "\<forall>z\<in>set r'. real_key y \<le> real_key z" using ge by simp
    with ih eq go(3) show ?thesis by simp
  qed
qed

lemma sort_py_step:
  assumes "sort_py deq acc (x # xs) = Inr r"
    and "\<forall>y\<in>set acc \<union> set (x # xs). is_finite (fst y)"
    and "sorted_wrt (\<lambda>a b. real_key a \<le> real_key b) acc"
  obtains acc' where "insort_py deq x acc = Inr acc'" and "sort_py deq acc' xs = Inr r"
    and "set acc' = insert x (set acc)"
    and "sorted_wrt (\<lambda>a b. real_key a \<le> real_key b) acc'"
    and "\<forall>y\<in>set acc' \<union> set xs. is_finite (fst y)"
    and "\<forall>y\<in>set acc. real_key x = real_key y \<longrightarrow> deq (snd x) (snd y)"
proof -
  from assms(1) obtain acc' where acc': "insort_py deq x acc = Inr acc'"
    and rest: "sort_py deq acc' xs = Inr r"
    by (cases "insort_py deq x acc") simp_all
  have fx: "is_finite (fst x)" and facc: "\<forall>y\<in>set acc. is_finite (fst y)"
    using assms(2) by simp_all
  note ins = insort_py_sorted [OF acc' fx facc assms(3)]
  have set': "set acc' = insert x (set acc)" by (rule insort_py_set [OF acc'])
  have fin': "\<forall>y\<in>set acc' \<union> set xs. is_finite (fst y)"
    using assms(2) set' by simp
  from ins have s': "sorted_wrt (\<lambda>a b. real_key a \<le> real_key b) acc'"
    and cmp: "\<forall>y\<in>set acc. real_key x = real_key y \<longrightarrow> deq (snd x) (snd y)"
    by simp_all
  show thesis by (rule that [OF acc' rest set' s' fin' cmp])
qed

lemma sort_py_member:
  assumes "sort_py deq acc xs = Inr r"
    and "\<forall>y\<in>set acc \<union> set xs. is_finite (fst y)"
    and "sorted_wrt (\<lambda>a b. real_key a \<le> real_key b) acc"
    and "x \<in> set acc" and "z \<in> set xs" and "real_key z = real_key x"
  shows "deq (snd z) (snd x)"
  using assms
proof (induction xs arbitrary: acc)
  case Nil
  then show ?case by simp
next
  case (Cons w ws)
  from Cons.prems(1,2,3) obtain acc' where
    ins: "insort_py deq w acc = Inr acc'"
    and rest: "sort_py deq acc' ws = Inr r"
    and set': "set acc' = insert w (set acc)"
    and s': "sorted_wrt (\<lambda>a b. real_key a \<le> real_key b) acc'"
    and fin': "\<forall>y\<in>set acc' \<union> set ws. is_finite (fst y)"
    and cmp: "\<forall>y\<in>set acc. real_key w = real_key y \<longrightarrow> deq (snd w) (snd y)"
    by (rule sort_py_step)
  show ?case
  proof (cases "z = w")
    case True
    with cmp Cons.prems(4,6) show ?thesis by blast
  next
    case False
    with Cons.prems(5) have zin: "z \<in> set ws" by simp
    have xin: "x \<in> set acc'" using set' Cons.prems(4) by simp
    from Cons.IH [OF rest fin' s' xin zin Cons.prems(6)] show ?thesis .
  qed
qed

lemma sort_py_sorted:
  assumes "sort_py deq acc xs = Inr r"
    and "\<forall>y\<in>set acc \<union> set xs. is_finite (fst y)"
    and "sorted_wrt (\<lambda>a b. real_key a \<le> real_key b) acc"
  shows "sorted_wrt (\<lambda>a b. real_key a \<le> real_key b) r"
  using assms
proof (induction xs arbitrary: acc)
  case Nil
  then show ?case by simp
next
  case (Cons w ws)
  from Cons.prems(1,2,3) obtain acc' where
    ins: "insort_py deq w acc = Inr acc'"
    and rest: "sort_py deq acc' ws = Inr r"
    and set': "set acc' = insert w (set acc)"
    and s': "sorted_wrt (\<lambda>a b. real_key a \<le> real_key b) acc'"
    and fin': "\<forall>y\<in>set acc' \<union> set ws. is_finite (fst y)"
    and cmp: "\<forall>y\<in>set acc. real_key w = real_key y \<longrightarrow> deq (snd w) (snd y)"
    by (rule sort_py_step)
  from Cons.IH [OF rest fin' s'] show ?case .
qed

lemma sort_py_compared:
  assumes "sort_py deq acc xs = Inr r"
    and "\<forall>y\<in>set acc \<union> set xs. is_finite (fst y)"
    and "sorted_wrt (\<lambda>a b. real_key a \<le> real_key b) acc"
    and "p < q" and "q < length xs" and "real_key (xs ! q) = real_key (xs ! p)"
  shows "deq (snd (xs ! q)) (snd (xs ! p))"
  using assms
proof (induction xs arbitrary: acc p q)
  case Nil
  then show ?case by simp
next
  case (Cons w ws)
  from Cons.prems(1,2,3) obtain acc' where
    ins: "insort_py deq w acc = Inr acc'"
    and rest: "sort_py deq acc' ws = Inr r"
    and set': "set acc' = insert w (set acc)"
    and s': "sorted_wrt (\<lambda>a b. real_key a \<le> real_key b) acc'"
    and fin': "\<forall>y\<in>set acc' \<union> set ws. is_finite (fst y)"
    and cmp: "\<forall>y\<in>set acc. real_key w = real_key y \<longrightarrow> deq (snd w) (snd y)"
    by (rule sort_py_step)
  from Cons.prems(4) obtain q' where q': "q = Suc q'" by (cases q) auto
  with Cons.prems(5) have q'len: "q' < length ws" by simp
  show ?case
  proof (cases p)
    case 0
    have win: "w \<in> set acc'" using set' by simp
    have zin: "ws ! q' \<in> set ws" using q'len by simp
    have "real_key (ws ! q') = real_key w" using Cons.prems(6) q' 0 by simp
    from sort_py_member [OF rest fin' s' win zin this] show ?thesis
      using q' 0 by simp
  next
    case (Suc p')
    with Cons.prems(4,6) q' have "p' < q'" "real_key (ws ! q') = real_key (ws ! p')"
      by simp_all
    from Cons.IH [OF rest fin' s' this(1) q'len this(2)] show ?thesis
      using q' Suc by simp
  qed
qed

lemma foldl_count:
  "foldl (\<lambda>score word. if P word then score + 1 else score) (a::int) ws =
     a + int (length (filter P ws))"
  by (induction ws arbitrary: a) simp_all

lemma keyword_count_eq:
  "keyword_count query t = int (length (filter (\<lambda>w. sublist w t) (py_split query)))"
  by (simp add: keyword_count_def foldl_count)

lemma memory_score_finite:
  "memory_score str_of query m (Fin r) =
     Fin (real (length (filter (\<lambda>w. sublist w (py_lower (str_of m))) (py_split query))) * (1 + r))"
  by (simp add: memory_score_def keyword_count_eq)

lemma scored_memories_Inr:
  "scored_memories str_of query ms imps = Inr sc \<Longrightarrow>
     length ms \<le> length imps \<and>
     sc = map (\<lambda>(m, imp). (memory_score str_of query m imp, m)) (zip ms imps)"
proof (induction str_of query ms imps arbitrary: sc rule: scored_memories.induct)
  case (1 str_of query imps)
  then show ?case by simp
next
  case (2 str_of query m ms)
  then show ?case by simp
next
  case (3 str_of query m ms imp imps)
  from "3.prems" obtain r where r: "scored_memories str_of query ms imps = Inr r"
    and sc: "sc = (memory_score str_of query m imp, m) # r"
    by (cases "scored_memories str_of query ms imps") auto
  from "3.IH" [OF r] sc show ?case by simp
qed

lemma scored_memories_total:
  "length ms \<le> length imps \<Longrightarrow>
     scored_memories str_of query ms imps =
       Inr (map (\<lambda>(m, imp). (memory_score str_of query m imp, m)) (zip ms imps))"
  by (induction str_of query ms imps rule: scored_memories.induct) simp_all

lemma scored_finite:
  assumes "\<forall>v\<in>set imps. is_finite v"
  shows "\<forall>e\<in>set (map (\<lambda>(m, imp). (memory_score str_of query m imp, m)) (zip ms imps)).
           is_finite (fst e)"
proof
  fix e
  assume "e \<in> set (map (\<lambda>(m, imp). (memory_score str_of query m imp, m)) (zip ms imps))"
  then obtain m imp where mi: "(m, imp) \<in> set (zip ms imps)"
    and e: "e = (memory_score str_of query m imp, m)" by auto
  from mi have "imp \<in> set imps" by (rule set_zip_rightD)
  with assms obtain r where "imp = Fin r" by (auto simp: is_finite_iff)
  with e show "is_finite (fst e)" by (simp add: memory_score_finite is_finite_def)
qed

lemma sort_reverse_Inr:
  assumes "sort_reverse deq xs = Inr r" and "\<forall>e\<in>set xs. is_finite (fst e)"
  shows "set r = set xs" and "sorted_wrt (\<lambda>a b. fge (fst a) (fst b)) r"
proof -
  from assms(1) obtain r' where r': "sort_py deq [] (rev xs) = Inr r'" and r: "r = rev r'"
    by (cases "sort_py deq [] (rev xs)") (simp_all add: sort_reverse_def)
  from sort_py_set [OF r'] r show set: "set r = set xs" by simp
  have fin: "\<forall>y\<in>set [] \<union> set (rev xs). is_finite (fst y)" using assms(2) by simp
  from sort_py_sorted [OF r' fin] have "sorted_wrt (\<lambda>a b. real_key a \<le> real_key b) r'" by simp
  then have desc: "sorted_wrt (\<lambda>a b. real_key b \<le> real_key a) r"
    by (simp add: r sorted_wrt_rev)
  show "sorted_wrt (\<lambda>a b. fge (fst a) (fst b)) r"
  proof (rule sorted_wrt_mono_rel [OF _ desc])
    fix a b
    assume "a \<in> set r" "b \<in> set r" and le: "real_key b \<le> real_key a"
    then have "is_finite (fst a)" "is_finite (fst b)" using assms(2) set by simp_all
    from finite_key_cmp(3) [OF this] le show "fge (fst a) (fst b)" by simp
  qed
qed

lemma slice_to_take: "\<exists>n. slice_to xs k = take n xs"
  by (auto simp: slice_to_def)

lemma length_slice_to: "0 \<le> k \<Longrightarrow> int (length (slice_to xs k)) \<le> k"
  by (simp add: slice_to_def)







section \<open>Properties of ToolSystem and process\_command\<close>

lemma safe_expression_safe: "list_all safe_char (safe_expression e)"
  by (simp add: safe_expression_def list_all_iff)

lemma safe_expression_id: "list_all safe_char e \<Longrightarrow> safe_expression e = e"
  by (simp add: safe_expression_def list_all_iff)

text \<open>
  C4, as stated, fails: an expression with a foreign token is not rejected. In "2+2a" the
  letter is deleted and the rest, "2+2", is evaluated: the result is the ordinary
  "Calculation" string with the value 4.
\<close>

theorem calculate_evaluates_filtered_text:
  "calculate example_builtins ''2+2a'' = ''Calculation: 2+2a = 4''"
  by code_simp

text \<open>
  C4, amended. \<open>calculate("2+2*3")\<close> returns "Calculation: 2+2*3 = 8". For every
  expression, \<open>calculate\<close> deletes the characters other than digits, \<open>+ - * / ( ) .\<close> and
  the space, and evaluates what is left (the expression itself when it has no other
  character): when the evaluation gives a value it returns
  "Calculation: <expression> = <value>", and when it raises it returns the string
  "Calculation error: <message>". No expression is rejected before the evaluation. Of
  "import os" one space is left, whose evaluation raises, so the result is a
  "Calculation error" string.
\<close>

theorem calculate_filters_then_evaluates:
  "calculate example_builtins ''2+2*3'' = ''Calculation: 2+2*3 = 8'' \<and>
   safe_expression ''import os'' = '' '' \<and>
   calculate example_builtins ''import os'' = ''Calculation error: invalid syntax'' \<and>
   list_all safe_char (safe_expression e) \<and>
   (list_all safe_char e \<longrightarrow> safe_expression e = e) \<and>
   (py_eval b (safe_expression e) = Inr r \<longrightarrow>
      calculate b e = ''Calculation: '' @ e @ '' = '' @ r) \<and>
   (py_eval b (safe_expression e) = Inl msg \<longrightarrow> calculate b e = ''Calculation error: '' @ msg)"
proof -
  have a: "calculate example_builtins ''2+2*3'' = ''Calculation: 2+2*3 = 8''"
    by code_simp
  have s: "safe_expression ''import os'' = '' ''"
    by code_simp
  have c: "calculate example_builtins ''import os'' = ''Calculation error: invalid syntax''"
    by code_simp
  from a s c safe_expression_safe [of e] safe_expression_id [of e] show ?thesis
    by (simp add: calculate_def)
qed

theorem calculate_filters_then_evaluates_witness:
  "safe_expression ''7*(1+x)'' = ''7*(1+)'' \<and>
   calculate example_builtins ''7*(1+x)'' = ''Calculation error: invalid syntax'' \<and>
   safe_expression ''7*(1+1)'' = ''7*(1+1)'' \<and>
   calculate example_builtins ''7*(1+1)'' = ''Calculation: 7*(1+1) = 14''"
proof -
  have s1: "safe_expression ''7*(1+x)'' = ''7*(1+)''" by code_simp
  have e1: "py_eval example_builtins ''7*(1+)'' = Inl ''invalid syntax''" by code_simp
  have s2: "list_all safe_char ''7*(1+1)''" by code_simp
  have e2: "py_eval example_builtins ''7*(1+1)'' = Inr ''14''" by code_simp
  from calculate_filters_then_evaluates [of "''7*(1+x)''" example_builtins "''''" "''invalid syntax''"]
    calculate_filters_then_evaluates [of "''7*(1+1)''" example_builtins "''14''" "''''"]
    s1 e1 s2 e2
  show ?thesis by simp
qed

lemma lower_char_not_space: "is_space (lower_char c) = is_space c"
proof -
  have "of_char (char_of (of_char c + 32 :: nat)) = (of_char c + 32 :: nat)"
    if "(of_char c :: nat) \<le> 222"
    using that by (simp add: of_char_of)
  then show ?thesis
    by (auto simp: is_space_def lower_char_def Let_def)
qed

lemma py_strip_id:
  assumes "s \<noteq> []" and "\<not> is_space (hd s)" and "\<not> is_space (last s)"
  shows "py_strip s = s"
proof -
  from assms(1,2) have d: "dropWhile is_space s = s"
    by (cases s) simp_all
  from assms(1,3) have "dropWhile is_space (rev s) = rev s"
    by (cases "rev s") (simp_all add: last_rev [symmetric] hd_rev)
  with d show ?thesis by (simp add: py_strip_def)
qed

lemma write_file_route:
  assumes "command = ''write_file '' @ rest"
  shows "(let parts = py_split1 CHR '' '' (drop 10 command)
          in if length parts = 2 then Return_call (Use_tool ''write_file'' [parts ! 0, parts ! 1])
             else Return_None) =
         Return_call (Use_tool ''write_file'' ['''', rest])"
  by (simp add: assms py_split1_def)

lemma process_command_write_file:
  assumes "prefix ''write_file '' (py_strip (py_lower c))"
  shows "process_command c =
     Return_call (Use_tool ''write_file'' ['''', drop 11 (py_strip (py_lower c))])"
proof -
  from assms obtain rest where rest: "py_strip (py_lower c) = ''write_file '' @ rest"
    by (auto simp: prefix_def)
  have "process_command c = Return_call (Use_tool ''write_file'' ['''', rest])"
    unfolding process_command_def Let_def rest
    using write_file_route [of "''write_file '' @ rest" rest, unfolded Let_def]
    by simp
  then show ?thesis by (simp add: rest)
qed

lemma process_command_not_progress:
  assumes "\<not> prefix ''progress '' (py_strip (py_lower c))"
  shows "\<exists>call. process_command c = Return_call call"
proof (cases "prefix ''write_file '' (py_strip (py_lower c))")
  case True
  then show ?thesis by (simp add: process_command_write_file)
next
  case False
  with assms show ?thesis by (simp add: process_command_def Let_def)
qed

text \<open>
  C10. Every command that, lowercased and stripped, starts with "write_file " is
  dispatched to \<open>use_tool('write_file', '', rest)\<close>: the slice \<open>command[10:]\<close> keeps the
  space after "write_file", so the split at the first space gives the empty string as
  filename and everything after the space as content. For
  "write_file <name> <content>" (content not ending in whitespace) the content argument
  is the lowercased "<name> <content>". \<open>write_file\<close> with the empty filename writes no
  file: \<open>open('')\<close> fails, the tool returns the "File write error" string and the files
  are unchanged.
\<close>

theorem write_file_command_empty_filename:
  "(prefix ''write_file '' (py_strip (py_lower command)) \<longrightarrow>
      process_command command =
        Return_call (Use_tool ''write_file'' ['''', drop 11 (py_strip (py_lower command))])) \<and>
   (content \<noteq> [] \<and> \<not> is_space (last content) \<longrightarrow>
      process_command (''write_file '' @ name @ '' '' @ content) =
        Return_call (Use_tool ''write_file'' ['''', py_lower name @ '' '' @ py_lower content])) \<and>
   use_tool b fs ''write_file'' ['''', text] =
     (''File write error: [Errno 2] No such file or directory: '' @ [CHR 0x27, CHR 0x27], fs)"
proof -
  have gen: "process_command c =
        Return_call (Use_tool ''write_file'' ['''', drop 11 (py_strip (py_lower c))])"
    if "prefix ''write_file '' (py_strip (py_lower c))" for c
    using that by (rule process_command_write_file)
  have spec: "process_command (''write_file '' @ name @ '' '' @ content) =
        Return_call (Use_tool ''write_file'' ['''', py_lower name @ '' '' @ py_lower content])"
    if c: "content \<noteq> []" "\<not> is_space (last content)"
  proof -
    define s where "s = py_lower (''write_file '' @ name @ '' '' @ content)"
    have low: "s = ''write_file '' @ py_lower name @ '' '' @ py_lower content"
      by (simp add: s_def py_lower_def lower_char_def)
    have "last s = lower_char (last content)"
      using c(1) unfolding low by (simp add: py_lower_def last_map)
    then have "\<not> is_space (last s)" using c(2) by (simp add: lower_char_not_space)
    moreover have "s \<noteq> []" "\<not> is_space (hd s)"
      unfolding low by (simp_all add: is_space_def)
    ultimately have st: "py_strip s = s" by (simp add: py_strip_id)
    have p: "prefix ''write_file '' (py_strip s)" by (subst st) (simp add: low)
    have d: "drop 11 (py_strip s) = py_lower name @ '' '' @ py_lower content"
      by (subst st) (simp add: low)
    from gen [OF p [unfolded s_def]] d [unfolded s_def] show ?thesis
      by (simp only:)
  qed
  have tool: "use_tool b fs ''write_file'' ['''', text] =
     (''File write error: [Errno 2] No such file or directory: '' @ [CHR 0x27, CHR 0x27], fs)"
    by (simp add: use_tool_def available_tools_def write_file_def open_write_def
        no_such_file_def py_repr_def)
  from gen [of command] spec tool show ?thesis by blast
qed

theorem write_file_command_empty_filename_witness:
  "process_command ''write_file notes.txt Hello World'' =
     Return_call (Use_tool ''write_file'' ['''', ''notes.txt hello world'']) \<and>
   process_command ''  WRITE_FILE a b  '' = Return_call (Use_tool ''write_file'' ['''', ''a b'']) \<and>
   snd (use_tool example_builtins empty_file_system ''write_file'' ['''', ''notes.txt hello world'']) =
     empty_file_system"
proof -
  have p: "prefix ''write_file '' (py_strip (py_lower ''  WRITE_FILE a b  ''))"
    and d: "drop 11 (py_strip (py_lower ''  WRITE_FILE a b  '')) = ''a b''"
    and l: "py_lower ''notes.txt'' @ '' '' @ py_lower ''Hello World'' = ''notes.txt hello world''"
    and n: "''Hello World'' \<noteq> [] \<and> \<not> is_space (last ''Hello World'')"
    by code_simp+
  from write_file_command_empty_filename
      [of "''  WRITE_FILE a b  ''" "''Hello World''" "''notes.txt''" example_builtins
          empty_file_system "''notes.txt hello world''"]
    p d l n
  show ?thesis by simp
qed

text \<open>
  C5 fails on the code, for the "progress" command. With one argument the command runs
  off the end of the \<open>if\<close>/\<open>elif\<close> chain and \<open>process_command\<close> returns \<open>None\<close>, not a
  string; with a goal id or a value that is not numeric, \<open>int()\<close> or \<open>float()\<close> raises
  ValueError, which nothing in \<open>process_command\<close> catches: it reaches the session loop.
  (Every command that is not a "progress" command returns the value of a call: lemma
  \<open>process_command_not_progress\<close>.)
\<close>

theorem process_command_progress_malformed:
  "process_command ''progress 1'' = Return_None \<and>
   process_command ''progress 1 2 3'' = Return_None \<and>
   process_command ''progress x 0.5'' = Raise ValueError \<and>
   process_command ''progress 1 abc'' = Raise ValueError \<and>
   process_command ''progress 1 0.5'' = Return_call (Update_progress_call 1 (Fin 0.5))"
  by code_simp

end
